theory Spec2Isabelle
  imports Main
begin

section \<open>The chat relay of server.js\<close>

text \<open>
  The server keeps three module-level variables (\<open>userState\<close>, \<open>messageHistory\<close>,
  \<open>lastActiveTimes\<close>) and mutates them from an HTTP handler, from the listeners of every
  WebSocket connection and from a periodic timer. Node runs each of these callbacks to
  completion before the next one starts, so a callback is modelled as a function from the
  state before it to the state after it, together with the list of frames it sent.

  What the callbacks read from their environment is an explicit argument: the value of
  \<open>Date.now()\<close>, the contents of \<open>wsServer.clients\<close> with each client's \<open>readyState\<close>, the
  result of \<open>randomUUID()\<close> and the function \<open>JSON.parse\<close>. The logger is left out, except
  where building its argument throws.
\<close>

subsection \<open>JavaScript values\<close>

type_synonym channel = nat

datatype readyState = CONNECTING | OPEN | CLOSING | CLOSED

type_synonym clients = "(channel \<times> readyState) list"

text \<open>
  The values that \<open>JSON.parse\<close> and the body parser deliver, and \<open>undefined\<close>. Nothing in
  the source checks the shape of a message: its \<open>user\<close> may be any of these values, and so
  may the \<open>name\<close> of a user. A number is kept as the decimal string that JavaScript prints
  for it: two numbers of a JSON text are \<open>===\<close> exactly when these strings are equal, and
  a number is falsy exactly when it prints as 0. An object is the list of its own
  properties.
\<close>

datatype val =
  Undefined
| Null
| Bool bool
| Num string
| Str string
| Arr "val list"
| Obj "(string \<times> val) list"

text \<open>
  Reading the property \<open>k\<close> of a value: \<open>None\<close> is the TypeError of reading a property
  of \<open>null\<close> or \<open>undefined\<close>. The source reads four properties only, \<open>type\<close>, \<open>user\<close>,
  \<open>name\<close> and \<open>ws\<close>; no prototype defines one of them, so on a string, a number, a
  boolean and an array they are undefined, and on an object they are what the object
  itself holds.
\<close>

fun property :: "string \<Rightarrow> val \<Rightarrow> val option" where
  "property k Undefined = None"
| "property k Null = None"
| "property k (Obj kvs) = Some (case map_of kvs k of None \<Rightarrow> Undefined | Some v \<Rightarrow> v)"
| "property k v = Some Undefined"

text \<open>What \<open>!x\<close> and \<open>x && ...\<close> test.\<close>

fun truthy :: "val \<Rightarrow> bool" where
  "truthy Undefined = False"
| "truthy Null = False"
| "truthy (Bool b) = b"
| "truthy (Num s) = (s \<noteq> ''0'')"
| "truthy (Str s) = (s \<noteq> [])"
| "truthy (Arr xs) = True"
| "truthy (Obj kvs) = True"

text \<open>
  \<open>a === b\<close>. Arrays and objects are compared by identity. Every comparison of the source
  has an element of \<open>userState\<close> on one side and a value of the message or request being
  handled on the other, which \<open>JSON.parse\<close> has just created: two arrays or objects that
  meet in a comparison are never the same one.
\<close>

fun boxed :: "val \<Rightarrow> bool" where
  "boxed (Arr xs) = True"
| "boxed (Obj kvs) = True"
| "boxed v = False"

definition strict_eq :: "val \<Rightarrow> val \<Rightarrow> bool" where
  "strict_eq a b = (\<not> boxed a \<and> \<not> boxed b \<and> a = b)"

fun commas :: "string list \<Rightarrow> string" where
  "commas [] = []"
| "commas [x] = x"
| "commas (x # y # zs) = x @ '','' @ commas (y # zs)"

text \<open>
  The string of a value, as a property key \<open>lastActiveTimes[x]\<close> and a template string
  \<open>`${x}`\<close> need it; \<open>None\<close> is a TypeError. An array prints its elements separated by
  commas, \<open>null\<close> and \<open>undefined\<close> as nothing. An object prints through the
  \<open>toString\<close> of \<open>Object.prototype\<close>, unless it has a \<open>toString\<close> property of its own:
  coming from JSON that property is not a function, and the conversion throws.
\<close>

fun to_string :: "val \<Rightarrow> string option" where
  "to_string Undefined = Some ''undefined''"
| "to_string Null = Some ''null''"
| "to_string (Bool b) = Some (if b then ''true'' else ''false'')"
| "to_string (Num s) = Some s"
| "to_string (Str s) = Some s"
| "to_string (Arr xs) =
     map_option commas
       (those (map (\<lambda>x. if x = Undefined \<or> x = Null then Some [] else to_string x) xs))"
| "to_string (Obj kvs) =
     (if ''toString'' \<in> fst ` set kvs then None else Some ''[object Object]'')"

text \<open>
  \<open>lastActiveTimes\<close> is a plain object used as a dictionary; the map holds its own
  properties. The assignment \<open>lastActiveTimes[k] = t\<close> creates or overwrites the property
  \<open>k\<close>, except for \<open>__proto__\<close>: there it runs the setter of \<open>Object.prototype\<close>, which
  ignores a number, and nothing is stored.
\<close>

definition put :: "string \<Rightarrow> int \<Rightarrow> (string \<rightharpoonup> int) \<Rightarrow> (string \<rightharpoonup> int)" where
  "put k t m = (if k = ''__proto__'' then m else m(k \<mapsto> t))"

text \<open>
  \<open>Array.prototype.find\<close> and \<open>findIndex\<close> with a callback that may throw: the outer
  \<open>None\<close> is the exception, the inner one is \<open>undefined\<close> and \<open>-1\<close>.
\<close>

fun find_js :: "('a \<Rightarrow> bool option) \<Rightarrow> 'a list \<Rightarrow> 'a option option" where
  "find_js P [] = Some None"
| "find_js P (x # xs) =
     (case P x of None \<Rightarrow> None | Some True \<Rightarrow> Some (Some x) | Some False \<Rightarrow> find_js P xs)"

fun findIndex :: "('a \<Rightarrow> bool option) \<Rightarrow> 'a list \<Rightarrow> nat option option" where
  "findIndex P [] = Some None"
| "findIndex P (x # xs) =
     (case P x of
        None \<Rightarrow> None
      | Some True \<Rightarrow> Some (Some 0)
      | Some False \<Rightarrow> map_option (map_option Suc) (findIndex P xs))"

text \<open>\<open>!isExist\<close> for the result of \<open>find\<close>.\<close>

fun not_js :: "val option \<Rightarrow> bool" where
  "not_js None = True"
| "not_js (Some v) = (\<not> truthy v)"

text \<open>The callback \<open>(user) => user.name === name\<close>.\<close>

definition same_name :: "val \<Rightarrow> val \<Rightarrow> bool option" where
  "same_name n user = map_option (\<lambda>m. strict_eq m n) (property ''name'' user)"

text \<open>\<open>xs.splice(i, 1)\<close>: the array without its element at index \<open>i\<close>.\<close>

definition splice1 :: "nat \<Rightarrow> 'a list \<Rightarrow> 'a list" where
  "splice1 i xs = take i xs @ drop (Suc i) xs"

subsection \<open>State, frames and outcomes\<close>

record state =
  userState :: "val list"
  messageHistory :: "val list"
  lastActiveTimes :: "string \<rightharpoonup> int"

definition init :: state where
  "init = \<lparr>userState = [], messageHistory = [], lastActiveTimes = Map.empty\<rparr>"

text \<open>
  What a client is sent: \<open>JSON.stringify(userState)\<close>, the history frame
  \<open>{type: "history", data: ...}\<close>, or the bytes of a relayed message with their binary flag.
\<close>

datatype payload =
  UserList "val list"
| History "val list"
| Relay string bool

type_synonym sent = "(channel \<times> payload) list"

datatype error = SyntaxError | TypeError

text \<open>
  How a callback ends: it returns, or an exception leaves it. Either way the module-level
  variables keep what was written and the frames already sent stay sent, so both carry the
  state and the frames.
\<close>

datatype outcome =
  Returned state sent
| Threw error state sent

fun after :: "outcome \<Rightarrow> state" where
  "after (Returned st out) = st"
| "after (Threw e st out) = st"

fun frames :: "outcome \<Rightarrow> sent" where
  "frames (Returned st out) = out"
| "frames (Threw e st out) = out"

fun returned :: "outcome \<Rightarrow> bool" where
  "returned (Returned st out) = True"
| "returned (Threw e st out) = False"

text \<open>
  The fan-out written four times in the listeners,
  \<open>[...wsServer.clients].filter((o) => o.readyState === WebSocket.OPEN).forEach((o) => o.send(p))\<close>.
\<close>

definition broadcast :: "clients \<Rightarrow> payload \<Rightarrow> sent" where
  "broadcast cl p = map (\<lambda>client. (fst client, p)) (filter (\<lambda>client. snd client = OPEN) cl)"

text \<open>The function \<open>broadcastUserState\<close> of the connection callback.\<close>

definition broadcastUserState :: "clients \<Rightarrow> state \<Rightarrow> sent" where
  "broadcastUserState cl st =
     concat (map (\<lambda>client. if snd client = OPEN then [(fst client, UserList (userState st))] else []) cl)"

subsection \<open>The registration endpoint\<close>

text \<open>
  The JSON body of a response, \<open>{status, user}\<close> or \<open>{status, message}\<close>, and the response
  with its HTTP status code; \<open>response.send\<close> without \<open>response.status\<close> answers 200.
\<close>

record result =
  status :: string
  user_of :: "val option"
  message :: "string option"

type_synonym response = "nat \<times> result"

text \<open>
  \<open>Object.keys(request.body).length\<close>. The body parser hands the handler an object or an
  array, and \<open>{}\<close> when the request has no body.
\<close>

fun key_count :: "val \<Rightarrow> nat option" where
  "key_count Undefined = None"
| "key_count Null = None"
| "key_count (Obj kvs) = Some (length kvs)"
| "key_count (Arr xs) = Some (length xs)"
| "key_count (Str s) = Some (length s)"
| "key_count v = Some 0"

text \<open>
  The handler of \<open>POST /new-user\<close>. \<open>Inl\<close> is an exception inside the handler; it can come
  from the callback of \<open>find\<close> and from the template string of the log line only.
\<close>

definition new_user :: "string \<Rightarrow> val \<Rightarrow> state \<Rightarrow> error + state \<times> response" where
  "new_user randomUUID body st =
     (case key_count body of
        None \<Rightarrow> Inl TypeError
      | Some c \<Rightarrow>
          if c = 0
          then Inr (st, 400, \<lparr>status = ''error'', user_of = None,
                              message = Some ''This name is already taken!''\<rparr>)
          else
            (case property ''name'' body of
               None \<Rightarrow> Inl TypeError
             | Some n \<Rightarrow>
                 (case find_js (same_name n) (userState st) of
                    None \<Rightarrow> Inl TypeError
                  | Some isExist \<Rightarrow>
                      if not_js isExist
                      then
                        let newUser = Obj [(''id'', Str randomUUID), (''name'', n)]
                        in Inr (st\<lparr>userState := userState st @ [newUser]\<rparr>,
                                200, \<lparr>status = ''ok'', user_of = Some newUser, message = None\<rparr>)
                      else
                        (case to_string n of
                           None \<Rightarrow> Inl TypeError
                         | Some s \<Rightarrow>
                             Inr (st, 409, \<lparr>status = ''error'', user_of = None,
                                             message = Some ''This name is already taken!''\<rparr>)))))"

subsection \<open>The listeners of a connection\<close>

text \<open>On connection the new client is sent the history.\<close>

definition on_connection :: "channel \<Rightarrow> state \<Rightarrow> sent" where
  "on_connection c st = [(c, History (messageHistory st))]"

text \<open>\<open>receivedMSG.user.name\<close>; \<open>None\<close> when reading it throws.\<close>

definition user_name :: "val \<Rightarrow> val option" where
  "user_name receivedMSG = Option.bind (property ''user'' receivedMSG) (property ''name'')"

text \<open>
  The \<open>ping\<close> branch: \<open>lastActiveTimes[receivedMSG.user.name] = Date.now()\<close>.
\<close>

definition ping_branch :: "int \<Rightarrow> state \<Rightarrow> val \<Rightarrow> outcome" where
  "ping_branch now st receivedMSG =
     (case user_name receivedMSG of
        None \<Rightarrow> Threw TypeError st []
      | Some n \<Rightarrow>
          (case to_string n of
             None \<Rightarrow> Threw TypeError st []
           | Some k \<Rightarrow> Returned (st\<lparr>lastActiveTimes := put k now (lastActiveTimes st)\<rparr>) []))"

text \<open>
  The \<open>join\<close> branch. Destructuring \<open>null\<close> or a missing \<open>user\<close> throws. The user is
  pushed before the key of \<open>lastActiveTimes\<close> is computed, so an exception there leaves
  it in the table.
\<close>

definition join_branch :: "int \<Rightarrow> clients \<Rightarrow> state \<Rightarrow> val \<Rightarrow> outcome" where
  "join_branch now cl st receivedMSG =
     (case property ''user'' receivedMSG of
        None \<Rightarrow> Threw TypeError st []
      | Some user \<Rightarrow>
          (case property ''name'' user of
             None \<Rightarrow> Threw TypeError st []
           | Some n \<Rightarrow>
               (case find_js (same_name n) (userState st) of
                  None \<Rightarrow> Threw TypeError st []
                | Some isExist \<Rightarrow>
                    if not_js isExist
                    then
                      let st1 = st\<lparr>userState := userState st @ [user]\<rparr>
                      in (case to_string n of
                            None \<Rightarrow> Threw TypeError st1 []
                          | Some k \<Rightarrow>
                              let st2 = st1\<lparr>lastActiveTimes := put k now (lastActiveTimes st1)\<rparr>
                              in Returned st2 (broadcast cl (UserList (userState st2))))
                    else Returned st (broadcast cl (UserList (userState st))))))"

text \<open>
  The end of the \<open>exit\<close> branch: the list is broadcast, then the log line prints the name.
\<close>

definition exit_finish :: "clients \<Rightarrow> val \<Rightarrow> state \<Rightarrow> outcome" where
  "exit_finish cl n st =
     (case to_string n of
        None \<Rightarrow> Threw TypeError st (broadcast cl (UserList (userState st)))
      | Some s \<Rightarrow> Returned st (broadcast cl (UserList (userState st))))"

text \<open>
  The \<open>exit\<close> branch. When \<open>receivedMSG.user.name\<close> cannot be read, the callback of
  \<open>findIndex\<close> throws on the first element; on an empty \<open>userState\<close> the callback never
  runs, the list is broadcast and the log line after it throws.
\<close>

definition exit_branch :: "clients \<Rightarrow> state \<Rightarrow> val \<Rightarrow> outcome" where
  "exit_branch cl st receivedMSG =
     (case user_name receivedMSG of
        None \<Rightarrow>
          (if userState st = [] then Threw TypeError st (broadcast cl (UserList (userState st)))
           else Threw TypeError st [])
      | Some n \<Rightarrow>
          (case findIndex (same_name n) (userState st) of
             None \<Rightarrow> Threw TypeError st []
           | Some None \<Rightarrow> exit_finish cl n st
           | Some (Some idx) \<Rightarrow>
               let st1 = st\<lparr>userState := splice1 idx (userState st)\<rparr>
               in (case to_string n of
                     None \<Rightarrow> Threw TypeError st1 []
                   | Some k \<Rightarrow>
                       exit_finish cl n
                         (st1\<lparr>lastActiveTimes := (lastActiveTimes st1)(k := None)\<rparr>))))"

definition send_branch :: "clients \<Rightarrow> state \<Rightarrow> val \<Rightarrow> string \<Rightarrow> bool \<Rightarrow> outcome" where
  "send_branch cl st receivedMSG msg isBinary =
     Returned (st\<lparr>messageHistory := messageHistory st @ [receivedMSG]\<rparr>)
       (broadcast cl (Relay msg isBinary))"

definition clear_branch :: "clients \<Rightarrow> state \<Rightarrow> outcome" where
  "clear_branch cl st = Returned (st\<lparr>messageHistory := []\<rparr>) (broadcast cl (History []))"

text \<open>
  The body of the message listener after \<open>JSON.parse\<close>. Reading \<open>receivedMSG.type\<close> throws
  when the message is \<open>null\<close>. The source tests the type five times in a row; a message
  has one type, so at most one test succeeds.
\<close>

definition dispatch :: "int \<Rightarrow> clients \<Rightarrow> state \<Rightarrow> val \<Rightarrow> string \<Rightarrow> bool \<Rightarrow> outcome" where
  "dispatch now cl st receivedMSG msg isBinary =
     (case property ''type'' receivedMSG of
        None \<Rightarrow> Threw TypeError st []
      | Some t \<Rightarrow>
          if t = Str ''ping'' then ping_branch now st receivedMSG
          else if t = Str ''join'' then join_branch now cl st receivedMSG
          else if t = Str ''exit'' then exit_branch cl st receivedMSG
          else if t = Str ''send'' then send_branch cl st receivedMSG msg isBinary
          else if t = Str ''clear'' then clear_branch cl st
          else Returned st [])"

text \<open>
  The message listener. \<open>JSON.parse\<close> is a parameter: \<open>None\<close> is its SyntaxError, which
  nothing in the listener catches. The listener never mentions the socket \<open>ws\<close> of its
  connection, so the channel a frame came in on is not an argument.
\<close>

definition on_message ::
  "(string \<Rightarrow> val option) \<Rightarrow> int \<Rightarrow> clients \<Rightarrow> state \<Rightarrow> string \<Rightarrow> bool \<Rightarrow> outcome" where
  "on_message JSON_parse now cl st msg isBinary =
     (case JSON_parse msg of
        None \<Rightarrow> Threw SyntaxError st []
      | Some receivedMSG \<Rightarrow> dispatch now cl st receivedMSG msg isBinary)"

text \<open>
  \<open>user.ws === ws\<close> in the close listener: the right side is the socket object of the
  connection, the left side a value of an element of \<open>userState\<close>. No value is a socket
  object.
\<close>

definition is_socket :: "val \<Rightarrow> channel \<Rightarrow> bool" where
  "is_socket v c = False"

text \<open>The close listener of the connection whose socket is \<open>c\<close>.\<close>

definition on_close :: "channel \<Rightarrow> clients \<Rightarrow> state \<Rightarrow> outcome" where
  "on_close c cl st =
     (case findIndex (\<lambda>user. map_option (\<lambda>w. is_socket w c) (property ''ws'' user)) (userState st) of
        None \<Rightarrow> Threw TypeError st []
      | Some None \<Rightarrow> Returned st []
      | Some (Some userIndex) \<Rightarrow>
          let disconnectedUser = userState st ! userIndex;
              st1 = st\<lparr>userState := splice1 userIndex (userState st)\<rparr>
          in (case Option.bind (property ''name'' disconnectedUser) to_string of
                None \<Rightarrow> Threw TypeError st1 []
              | Some k \<Rightarrow>
                  let st2 = st1\<lparr>lastActiveTimes := (lastActiveTimes st1)(k := None)\<rparr>
                  in Returned st2 (broadcast cl (UserList (userState st2)))))"

subsection \<open>The timer\<close>

text \<open>
  The key \<open>user.name\<close> of an element in \<open>lastActiveTimes\<close>; \<open>None\<close> when computing it
  throws.
\<close>

definition entry_key :: "val \<Rightarrow> string option" where
  "entry_key user = Option.bind (property ''name'' user) to_string"

text \<open>
  The test of the timer callback,
  \<open>lastActiveTimes[user.name] && currentTime - lastActiveTimes[user.name] > 5000\<close>. It is
  false for a missing entry and for the number 0. For a key that \<open>lastActiveTimes\<close> does
  not hold but \<open>Object.prototype\<close> does, the left operand is a function or an object and
  the difference is NaN: the test is false there too.
\<close>

definition stale :: "int \<Rightarrow> int option \<Rightarrow> bool" where
  "stale currentTime entry =
     (case entry of None \<Rightarrow> False | Some t \<Rightarrow> t \<noteq> 0 \<and> currentTime - t > 5000)"

definition expired :: "int \<Rightarrow> state \<Rightarrow> val \<Rightarrow> bool" where
  "expired currentTime st user =
     (case entry_key user of
        None \<Rightarrow> False
      | Some k \<Rightarrow> stale currentTime (lastActiveTimes st k))"

text \<open>
  \<open>userState.forEach((user, index) => ...)\<close> while the callback splices \<open>userState\<close>.
  \<open>forEach\<close> reads the length once, before the first call, and then visits the indices
  \<open>0, 1, ..., len - 1\<close> in turn, each time reading the element that is at this index now
  and passing over an index that the array no longer has. \<open>out\<close> collects the frames
  sent so far.
\<close>

function forEach :: "int \<Rightarrow> clients \<Rightarrow> nat \<Rightarrow> nat \<Rightarrow> state \<Rightarrow> sent \<Rightarrow> outcome" where
  "forEach currentTime cl index len st out =
     (if index < len then
        (if index < length (userState st) then
           (case entry_key (userState st ! index) of
              None \<Rightarrow> Threw TypeError st out
            | Some k \<Rightarrow>
                if stale currentTime (lastActiveTimes st k)
                then
                  let st' = st\<lparr>userState := splice1 index (userState st),
                              lastActiveTimes := (lastActiveTimes st)(k := None)\<rparr>
                  in forEach currentTime cl (Suc index) len st' (out @ broadcastUserState cl st')
                else forEach currentTime cl (Suc index) len st out)
         else forEach currentTime cl (Suc index) len st out)
      else Returned st out)"
  by pat_completeness auto
termination
  by (relation "measure (\<lambda>(currentTime, cl, index, len, st, out). len - index)") auto

text \<open>The callback of \<open>setInterval\<close>.\<close>

definition sweep :: "int \<Rightarrow> clients \<Rightarrow> state \<Rightarrow> outcome" where
  "sweep currentTime cl st = forEach currentTime cl 0 (length (userState st)) st []"

declare forEach.simps [simp del]

subsection \<open>The server as a state machine\<close>

text \<open>
  No callback of the source contains a \<open>try\<close>, and the source installs no handler for
  uncaught exceptions or unhandled rejections. An exception that leaves a callback is
  therefore uncaught, and Node ends the process: the server has crashed and handles no
  further event.
\<close>

datatype server = Running state | Crashed error

datatype event =
  Register string val
| Connect channel
| Message int clients string bool
| Close channel clients
| Tick int clients

fun continue :: "outcome \<Rightarrow> server \<times> sent" where
  "continue (Returned st out) = (Running st, out)"
| "continue (Threw e st out) = (Crashed e, out)"

fun step :: "(string \<Rightarrow> val option) \<Rightarrow> state \<Rightarrow> event \<Rightarrow> server \<times> sent" where
  "step JSON_parse st (Register randomUUID body) =
     (case new_user randomUUID body st of
        Inl e \<Rightarrow> (Crashed e, [])
      | Inr (st', answer) \<Rightarrow> (Running st', []))"
| "step JSON_parse st (Connect c) = (Running st, on_connection c st)"
| "step JSON_parse st (Message now cl msg isBinary) =
     continue (on_message JSON_parse now cl st msg isBinary)"
| "step JSON_parse st (Close c cl) = continue (on_close c cl st)"
| "step JSON_parse st (Tick now cl) = continue (sweep now cl st)"

fun run :: "(string \<Rightarrow> val option) \<Rightarrow> server \<Rightarrow> event list \<Rightarrow> server" where
  "run JSON_parse srv [] = srv"
| "run JSON_parse (Crashed e) (ev # evs) = Crashed e"
| "run JSON_parse (Running st) (ev # evs) = run JSON_parse (fst (step JSON_parse st ev)) evs"

subsection \<open>Sample data for concrete runs\<close>

definition alice :: val where
  "alice = Obj [(''id'', Str ''1''), (''name'', Str ''alice'')]"

definition bob :: val where
  "bob = Obj [(''id'', Str ''2''), (''name'', Str ''bob'')]"

definition ghost :: val where
  "ghost = Obj [(''name'', Str ''ghost'')]"

definition msg_of :: "string \<Rightarrow> val \<Rightarrow> val" where
  "msg_of t user = Obj [(''type'', Str t), (''user'', user)]"

text \<open>
  A fragment of \<open>JSON.parse\<close>, enough to run the listeners on the frames below: each frame
  of the table decodes to the message beside it, and a string outside the table stands
  for a frame that is not JSON. Among them are \<open>{"type":"join","user":""}\<close>, a \<open>join\<close>
  whose name is the object \<open>{}\<close>, a \<open>ping\<close> for the name \<open>__proto__\<close> and a \<open>ping\<close>
  whose name is the object \<open>{"toString":1}\<close>.
\<close>

definition sample_frames :: "(string \<times> val) list" where
  "sample_frames =
     [(''join alice'', msg_of ''join'' alice),
      (''join bob'', msg_of ''join'' bob),
      (''exit alice'', msg_of ''exit'' alice),
      (''exit ghost'', msg_of ''exit'' ghost),
      (''ping ghost'', msg_of ''ping'' ghost),
      (''clear'', Obj [(''type'', Str ''clear'')]),
      (''join empty'', msg_of ''join'' (Str [])),
      (''join braces'', msg_of ''join'' (Obj [(''name'', Obj [])])),
      (''ping proto'', msg_of ''ping'' (Obj [(''name'', Str ''__proto__'')])),
      (''ping object'', msg_of ''ping'' (Obj [(''name'', Obj [(''toString'', Num ''1'')])]))]"

definition parse_sample :: "string \<Rightarrow> val option" where
  "parse_sample = map_of sample_frames"

definition two_clients :: clients where
  "two_clients = [(1, OPEN), (2, OPEN), (3, CLOSING)]"

text \<open>The state after alice and bob have joined at time 1000.\<close>

definition alice_and_bob :: state where
  "alice_and_bob =
     \<lparr>userState = [alice, bob], messageHistory = [],
      lastActiveTimes = [''alice'' \<mapsto> 1000, ''bob'' \<mapsto> 1000]\<rparr>"

subsection \<open>Notions used by the properties\<close>






text \<open>
  The states after \<open>{"type":"join","user":""}\<close> has arrived once and twice at the empty
  server.
\<close>

definition empty_once :: state where
  "empty_once = after (on_message parse_sample 1000 two_clients init ''join empty'' False)"

definition empty_twice :: state where
  "empty_twice = after (on_message parse_sample 1001 two_clients empty_once ''join empty'' False)"


text \<open>A run of the timer callback.\<close>

fun is_tick :: "event \<Rightarrow> bool" where
  "is_tick (Tick now cl) = True"
| "is_tick ev = False"

text \<open>
  The last-seen entry of an element of \<open>userState\<close>: what \<open>lastActiveTimes\<close> holds under
  the key of its name, and nothing when that key cannot be computed.
\<close>

definition entry :: "state \<Rightarrow> val \<Rightarrow> int option" where
  "entry st user = (case entry_key user of None \<Rightarrow> None | Some k \<Rightarrow> lastActiveTimes st k)"

text \<open>The name of every element of \<open>userState\<close> has a key.\<close>

definition keyed_table :: "state \<Rightarrow> bool" where
  "keyed_table st = list_all (\<lambda>user. entry_key user \<noteq> None) (userState st)"

text \<open>
  A participant as the registration endpoint creates it: an element of \<open>userState\<close>, no
  entry in \<open>lastActiveTimes\<close>.
\<close>

definition carol :: val where
  "carol = Obj [(''id'', Str ''3''), (''name'', Str ''carol'')]"

definition registered_only :: state where
  "registered_only =
     \<lparr>userState = [carol, alice], messageHistory = [],
      lastActiveTimes = [''alice'' \<mapsto> 1000]\<rparr>"

text \<open>
  No element of \<open>userState\<close> has the name \<open>n\<close>: the callback of \<open>find\<close> and \<open>findIndex\<close>
  answers false on every element.
\<close>

definition absent :: "state \<Rightarrow> val \<Rightarrow> bool" where
  "absent st n = list_all (\<lambda>user. same_name n user = Some False) (userState st)"

text \<open>The JSON body that both error answers of the registration endpoint carry.\<close>

definition taken :: result where
  "taken = \<lparr>status = ''error'', user_of = None, message = Some ''This name is already taken!''\<rparr>"

text \<open>The response of a request, when the handler has sent one.\<close>

fun answer :: "error + state \<times> response \<Rightarrow> response option" where
  "answer (Inl e) = None"
| "answer (Inr (st, a)) = Some a"

text \<open>The state after alice alone has joined from the empty server at time 1000.\<close>

definition alice_joined :: state where
  "alice_joined = after (on_message parse_sample 1000 two_clients init ''join alice'' False)"

text \<open>The clients when channel 1 has closed.\<close>

definition one_closed :: clients where
  "one_closed = [(1, CLOSED), (2, OPEN)]"

text \<open>No element of \<open>userState\<close> is \<open>null\<close> or \<open>undefined\<close>.\<close>

definition readable_table :: "state \<Rightarrow> bool" where
  "readable_table st = list_all (\<lambda>user. user \<noteq> Undefined \<and> user \<noteq> Null) (userState st)"

section \<open>Properties\<close>

subsection \<open>Facts about the helpers\<close>


lemma find_js_found: "find_js P xs = Some (Some y) \<Longrightarrow> y \<in> set xs \<and> P y = Some True"
  by (induction xs) (auto split: option.splits bool.splits)

lemma find_js_missing: "find_js P xs = Some None \<longleftrightarrow> (\<forall>x \<in> set xs. P x = Some False)"
  by (induction xs) (auto split: option.splits bool.splits)



lemma findIndex_missing: "findIndex P xs = Some None \<longleftrightarrow> (\<forall>x \<in> set xs. P x = Some False)"
  by (induction xs) (auto split: option.splits bool.splits)

lemma splice_beyond: "length xs \<le> i \<Longrightarrow> splice1 i xs = xs"
  by (simp add: splice1_def)



lemma set_splice_subset: "set (splice1 i xs) \<subseteq> set xs"
proof -
  have "set (take i xs) \<subseteq> set xs" by (rule set_take_subset)
  moreover have "set (drop (Suc i) xs) \<subseteq> set xs" by (rule set_drop_subset)
  ultimately show ?thesis by (simp add: splice1_def)
qed


lemma drop_at: "i < length xs \<Longrightarrow> drop i xs = xs ! i # drop (Suc i) xs"
  by (simp add: Cons_nth_drop_Suc)


lemma set_splice_keeps:
  assumes "x \<in> set xs" and "i < length xs \<longrightarrow> xs ! i \<noteq> x"
  shows "x \<in> set (splice1 i xs)"
proof (cases "i < length xs")
  case True
  have "x \<in> set (take i xs @ drop i xs)" using assms(1) by simp
  then have "x \<in> set (take i xs) \<or> x \<in> set (drop i xs)" by (simp only: set_append Un_iff)
  moreover have "set (drop i xs) = insert (xs ! i) (set (drop (Suc i) xs))"
    using True by (simp add: drop_at [of i xs])
  ultimately have "x \<in> set (take i xs) \<or> x \<in> set (drop (Suc i) xs)"
    using assms(2) True by auto
  then show ?thesis by (simp add: splice1_def)
next
  case False
  with assms(1) show ?thesis by (simp add: splice_beyond)
qed

lemma set_broadcast: "set (broadcast cl p) = (\<lambda>c. (c, p)) ` {c. (c, OPEN) \<in> set cl}"
  by (force simp: broadcast_def)


lemma strict_eq_unboxed: "\<not> boxed n \<Longrightarrow> strict_eq m n \<longleftrightarrow> m = n"
  by (auto simp: strict_eq_def)

lemma same_name_true: "same_name n user = Some True \<Longrightarrow> property ''name'' user = Some n \<and> \<not> boxed n"
  by (auto simp: same_name_def strict_eq_def)




subsection \<open>Names stay unique among plain users\<close>










subsection \<open>The timer and participants without a last-seen entry\<close>

lemma forEach_keeps:
  assumes "u \<in> set (userState st)" and "entry st u = None"
  shows "u \<in> set (userState (after (forEach t cl i len st out)))
       \<and> entry (after (forEach t cl i len st out)) u = None"
  using assms
proof (induction t cl i len st out rule: forEach.induct)
  case (1 t cl i len st out)
  show ?case
  proof (cases "i < len")
    case False
    with "1.prems" show ?thesis by (simp add: forEach.simps [of t cl i len st out])
  next
    case in_range: True
    show ?thesis
    proof (cases "i < length (userState st)")
      case False
      then have "forEach t cl i len st out = forEach t cl (Suc i) len st out"
        using in_range by (subst forEach.simps) simp
      then show ?thesis using "1.IH"(3) [OF in_range False] "1.prems" by simp
    next
      case here: True
      show ?thesis
      proof (cases "entry_key (userState st ! i)")
        case None
        then have "forEach t cl i len st out = Threw TypeError st out"
          using in_range here by (subst forEach.simps) simp
        with "1.prems" show ?thesis by simp
      next
        case (Some k)
        show ?thesis
        proof (cases "stale t (lastActiveTimes st k)")
          case False
          then have "forEach t cl i len st out = forEach t cl (Suc i) len st out"
            using in_range here Some by (subst forEach.simps) simp
          then show ?thesis using "1.IH"(2) [OF in_range here Some False] "1.prems" by simp
        next
          case hit: True
          define st' where "st' = st\<lparr>userState := splice1 i (userState st),
                                       lastActiveTimes := (lastActiveTimes st)(k := None)\<rparr>"
          have "entry st (userState st ! i) \<noteq> None"
            using Some hit by (auto simp: entry_def stale_def split: option.splits)
          then have "userState st ! i \<noteq> u" using "1.prems"(2) by auto
          then have "u \<in> set (userState st')"
            using "1.prems"(1) by (simp add: st'_def set_splice_keeps)
          moreover have "entry st' u = None"
            using "1.prems"(2) by (simp add: st'_def entry_def split: option.splits)
          ultimately have "u \<in> set (userState (after (forEach t cl (Suc i) len st'
                                   (out @ broadcastUserState cl st'))))
              \<and> entry (after (forEach t cl (Suc i) len st' (out @ broadcastUserState cl st'))) u
                  = None"
            using "1.IH"(1) [OF in_range here Some hit st'_def] by simp
          moreover have "forEach t cl i len st out
                           = forEach t cl (Suc i) len st' (out @ broadcastUserState cl st')"
            using in_range here Some hit
            by (subst forEach.simps) (simp add: st'_def Let_def)
          ultimately show ?thesis by simp
        qed
      qed
    qed
  qed
qed

lemma forEach_keyed:
  assumes "keyed_table st"
  shows "returned (forEach t cl i len st out) \<and> keyed_table (after (forEach t cl i len st out))"
  using assms
proof (induction t cl i len st out rule: forEach.induct)
  case (1 t cl i len st out)
  show ?case
  proof (cases "i < len")
    case False
    with "1.prems" show ?thesis by (simp add: forEach.simps [of t cl i len st out])
  next
    case in_range: True
    show ?thesis
    proof (cases "i < length (userState st)")
      case False
      then have "forEach t cl i len st out = forEach t cl (Suc i) len st out"
        using in_range by (subst forEach.simps) simp
      then show ?thesis using "1.IH"(3) [OF in_range False] "1.prems" by simp
    next
      case here: True
      then have "userState st ! i \<in> set (userState st)" by simp
      then obtain k where Some: "entry_key (userState st ! i) = Some k"
        using "1.prems" by (auto simp: keyed_table_def list_all_iff)
      show ?thesis
      proof (cases "stale t (lastActiveTimes st k)")
        case False
        then have "forEach t cl i len st out = forEach t cl (Suc i) len st out"
          using in_range here Some by (subst forEach.simps) simp
        then show ?thesis using "1.IH"(2) [OF in_range here Some False] "1.prems" by simp
      next
        case hit: True
        define st' where "st' = st\<lparr>userState := splice1 i (userState st),
                                     lastActiveTimes := (lastActiveTimes st)(k := None)\<rparr>"
        have "keyed_table st'"
          using "1.prems" set_splice_subset [of i "userState st"]
          by (auto simp: keyed_table_def list_all_iff st'_def)
        then have "returned (forEach t cl (Suc i) len st' (out @ broadcastUserState cl st'))
            \<and> keyed_table (after (forEach t cl (Suc i) len st' (out @ broadcastUserState cl st')))"
          using "1.IH"(1) [OF in_range here Some hit st'_def] by simp
        moreover have "forEach t cl i len st out
                         = forEach t cl (Suc i) len st' (out @ broadcastUserState cl st')"
          using in_range here Some hit
          by (subst forEach.simps) (simp add: st'_def Let_def)
        ultimately show ?thesis by simp
      qed
    qed
  qed
qed

lemma continue_after: "returned oc \<Longrightarrow> fst (continue oc) = Running (after oc)"
  by (cases oc) simp_all

lemma continue_running: "fst (continue oc) = Running st' \<Longrightarrow> after oc = st'"
  by (cases oc) simp_all

lemma ticks_keep:
  assumes "u \<in> set (userState st)" and "entry st u = None" and "list_all is_tick evs"
    and "run JSON_parse (Running st) evs = Running st'"
  shows "u \<in> set (userState st') \<and> entry st' u = None"
  using assms
proof (induction evs arbitrary: st)
  case Nil
  then show ?case by simp
next
  case (Cons ev evs)
  then obtain now cl where ev: "ev = Tick now cl" by (cases ev) auto
  show ?case
  proof (cases "fst (step JSON_parse st ev)")
    case (Running st1)
    then have "after (sweep now cl st) = st1" using ev by (simp add: continue_running)
    then have "u \<in> set (userState st1) \<and> entry st1 u = None"
      using forEach_keeps [OF Cons.prems(1,2), of now cl 0 "length (userState st)" "[]"]
      by (simp add: sweep_def)
    moreover have "run JSON_parse (Running st1) evs = Running st'"
      using Cons.prems(4) Running by simp
    moreover have "list_all is_tick evs" using Cons.prems(3) by simp
    ultimately show ?thesis using Cons.IH by blast
  next
    case (Crashed e)
    with Cons.prems(4) show ?thesis by (cases evs) simp_all
  qed
qed

lemma ticks_run:
  assumes "keyed_table st" and "list_all is_tick evs"
  shows "\<exists>st'. run JSON_parse (Running st) evs = Running st'"
  using assms
proof (induction evs arbitrary: st)
  case Nil
  then show ?case by simp
next
  case (Cons ev evs)
  then obtain now cl where ev: "ev = Tick now cl" by (cases ev) auto
  have "returned (sweep now cl st) \<and> keyed_table (after (sweep now cl st))"
    unfolding sweep_def using Cons.prems(1) by (rule forEach_keyed)
  then have "fst (step JSON_parse st ev) = Running (after (sweep now cl st))"
      "keyed_table (after (sweep now cl st))"
    using ev by (simp_all add: continue_after)
  with Cons show ?case by simp
qed

text \<open>
  C10. A participant that is in \<open>userState\<close> and has no entry in \<open>lastActiveTimes\<close> is
  still in \<open>userState\<close>, and still without an entry, after one run of the timer callback
  at any time, and after any number of such runs at any times for as long as the server
  runs. When the name of every element has a key, as every string has, the timer callback
  does not throw and the server does run.
\<close>

theorem never_seen_never_evicted:
  assumes "u \<in> set (userState st)" and "entry st u = None" and "list_all is_tick evs"
  shows "u \<in> set (userState (after (sweep now cl st)))
       \<and> entry (after (sweep now cl st)) u = None
       \<and> (\<forall>st'. run JSON_parse (Running st) evs = Running st'
              \<longrightarrow> u \<in> set (userState st') \<and> entry st' u = None)
       \<and> (keyed_table st
            \<longrightarrow> (\<exists>st'. run JSON_parse (Running st) evs = Running st'
                     \<and> u \<in> set (userState st') \<and> entry st' u = None))"
proof -
  have one: "u \<in> set (userState (after (sweep now cl st)))
      \<and> entry (after (sweep now cl st)) u = None"
    unfolding sweep_def using assms(1,2) by (rule forEach_keeps)
  have many: "\<forall>st'. run JSON_parse (Running st) evs = Running st'
              \<longrightarrow> u \<in> set (userState st') \<and> entry st' u = None"
    using ticks_keep [OF assms] by blast
  have "\<exists>st'. run JSON_parse (Running st) evs = Running st'
                     \<and> u \<in> set (userState st') \<and> entry st' u = None" if "keyed_table st"
    using ticks_run [OF that assms(3), of JSON_parse] many by blast
  with one many show ?thesis by blast
qed

theorem never_seen_never_evicted_witness:
  "carol \<in> set (userState registered_only)
   \<and> entry registered_only carol = None
   \<and> list_all is_tick [Tick 900000 two_clients, Tick 905000 two_clients]
   \<and> keyed_table registered_only
   \<and> carol \<in> set (userState (after (sweep 900000 two_clients registered_only)))
   \<and> (\<exists>st'. run parse_sample (Running registered_only)
               [Tick 900000 two_clients, Tick 905000 two_clients] = Running st'
          \<and> carol \<in> set (userState st'))"
proof -
  have h1: "carol \<in> set (userState registered_only)"
    by (simp add: registered_only_def)
  have h2: "entry registered_only carol = None"
    by (simp add: registered_only_def carol_def entry_def entry_key_def)
  have h3: "list_all is_tick [Tick 900000 two_clients, Tick 905000 two_clients]"
    by simp
  have h4: "keyed_table registered_only"
    by (simp add: keyed_table_def registered_only_def carol_def alice_def entry_key_def)
  show ?thesis
    using h1 h2 h3 h4 never_seen_never_evicted [OF h1 h2 h3, of 900000 two_clients parse_sample]
    by blast
qed

subsection \<open>Single messages\<close>

lemma absent_find: "absent st n \<Longrightarrow> find_js (same_name n) (userState st) = Some None"
  by (simp add: absent_def list_all_iff find_js_missing)


lemma falsy_name: "\<not> truthy e \<Longrightarrow> property ''name'' e = Some n \<Longrightarrow> n = Undefined"
  by (cases e) simp_all

text \<open>
  C4, as the code has it. A frame that \<open>JSON.parse\<close> rejects makes the message listener
  throw a SyntaxError before it has written anything or sent anything. Nothing catches the
  error: the server crashes, and whatever events follow are not handled.
\<close>

theorem malformed_frame_uncaught:
  assumes "JSON_parse msg = None"
  shows "on_message JSON_parse now cl st msg isBinary = Threw SyntaxError st []
       \<and> step JSON_parse st (Message now cl msg isBinary) = (Crashed SyntaxError, [])
       \<and> run JSON_parse (Running st) (Message now cl msg isBinary # evs) = Crashed SyntaxError"
proof -
  have t: "on_message JSON_parse now cl st msg isBinary = Threw SyntaxError st []"
    using assms by (simp add: on_message_def)
  then have "step JSON_parse st (Message now cl msg isBinary) = (Crashed SyntaxError, [])"
    by simp
  moreover from this
  have "run JSON_parse (Running st) (Message now cl msg isBinary # evs) = Crashed SyntaxError"
    by (cases evs) simp_all
  ultimately show ?thesis using t by simp
qed

theorem malformed_frame_uncaught_witness:
  "parse_sample ''not json'' = None
   \<and> on_message parse_sample 2000 two_clients alice_and_bob ''not json'' False
       = Threw SyntaxError alice_and_bob []
   \<and> run parse_sample (Running alice_and_bob)
       [Message 2000 two_clients ''not json'' False, Message 2001 two_clients ''join alice'' False]
       = Crashed SyntaxError"
proof -
  have h: "parse_sample ''not json'' = None"
    by (simp add: parse_sample_def sample_frames_def)
  show ?thesis
    using h malformed_frame_uncaught [where JSON_parse = parse_sample and msg = "''not json''"
        and now = 2000 and cl = two_clients and st = alice_and_bob and isBinary = False
        and evs = "[Message 2001 two_clients ''join alice'' False]"]
    by simp
qed

text \<open>
  The claim C4 itself asks that the server goes on with its state unchanged. On the
  frame \<open>not json\<close> it does not go on.
\<close>

theorem malformed_frame_counterexample:
  "fst (step parse_sample alice_and_bob (Message 2000 two_clients ''not json'' False))
     \<noteq> Running alice_and_bob
   \<and> fst (step parse_sample alice_and_bob (Message 2000 two_clients ''not json'' False))
     = Crashed SyntaxError"
  by (simp add: on_message_def parse_sample_def sample_frames_def)

text \<open>
  C5, as the code has it. Take a \<open>ping\<close> for a name that no element of \<open>userState\<close> has
  and that has a key, as every string has. It returns without an error and without
  sending anything, and leaves \<open>userState\<close> and the history as they are; it does write the
  current time into \<open>lastActiveTimes\<close> under that name. The one exception is the name
  \<open>__proto__\<close>, under which a plain object stores nothing: there the state is unchanged.
\<close>

theorem ping_unknown_records_time:
  assumes "JSON_parse msg = Some r" and "property ''type'' r = Some (Str ''ping'')"
    and "user_name r = Some n" and "to_string n = Some k" and "absent st n"
  shows "on_message JSON_parse now cl st msg isBinary
           = Returned (st\<lparr>lastActiveTimes := put k now (lastActiveTimes st)\<rparr>) []
       \<and> userState (after (on_message JSON_parse now cl st msg isBinary)) = userState st
       \<and> messageHistory (after (on_message JSON_parse now cl st msg isBinary)) = messageHistory st
       \<and> (k \<noteq> ''__proto__''
            \<longrightarrow> lastActiveTimes (after (on_message JSON_parse now cl st msg isBinary)) k = Some now)
       \<and> (k = ''__proto__'' \<longrightarrow> after (on_message JSON_parse now cl st msg isBinary) = st)"
  using assms by (simp add: on_message_def dispatch_def ping_branch_def put_def)

theorem ping_unknown_records_time_witness:
  "parse_sample ''ping ghost'' = Some (msg_of ''ping'' ghost)
   \<and> user_name (msg_of ''ping'' ghost) = Some (Str ''ghost'')
   \<and> absent alice_and_bob (Str ''ghost'')
   \<and> ''ghost'' \<noteq> ''__proto__''
   \<and> userState (after (on_message parse_sample 4242 two_clients alice_and_bob ''ping ghost'' False))
       = userState alice_and_bob
   \<and> lastActiveTimes (after (on_message parse_sample 4242 two_clients alice_and_bob ''ping ghost'' False))
       ''ghost'' = Some 4242
   \<and> user_name (msg_of ''ping'' (Obj [(''name'', Str ''__proto__'')])) = Some (Str ''__proto__'')
   \<and> absent alice_and_bob (Str ''__proto__'')
   \<and> after (on_message parse_sample 4242 two_clients alice_and_bob ''ping proto'' False)
       = alice_and_bob"
proof -
  have g1: "parse_sample ''ping ghost'' = Some (msg_of ''ping'' ghost)"
    by (simp add: parse_sample_def sample_frames_def)
  have g2: "property ''type'' (msg_of ''ping'' ghost) = Some (Str ''ping'')"
    by (simp add: msg_of_def)
  have g3: "user_name (msg_of ''ping'' ghost) = Some (Str ''ghost'')"
    by (simp add: msg_of_def user_name_def ghost_def)
  have g4: "to_string (Str ''ghost'') = Some ''ghost''" by simp
  have g5: "absent alice_and_bob (Str ''ghost'')"
    by (simp add: absent_def alice_and_bob_def alice_def bob_def same_name_def strict_eq_def)
  have p1: "parse_sample ''ping proto'' = Some (msg_of ''ping'' (Obj [(''name'', Str ''__proto__'')]))"
    by (simp add: parse_sample_def sample_frames_def)
  have p2: "property ''type'' (msg_of ''ping'' (Obj [(''name'', Str ''__proto__'')]))
              = Some (Str ''ping'')"
    by (simp add: msg_of_def)
  have p3: "user_name (msg_of ''ping'' (Obj [(''name'', Str ''__proto__'')]))
              = Some (Str ''__proto__'')"
    by (simp add: msg_of_def user_name_def)
  have p4: "to_string (Str ''__proto__'') = Some ''__proto__''" by simp
  have p5: "absent alice_and_bob (Str ''__proto__'')"
    by (simp add: absent_def alice_and_bob_def alice_def bob_def same_name_def strict_eq_def)
  have g6: "''ghost'' \<noteq> ''__proto__''" by simp
  note ghost_ping = ping_unknown_records_time [where JSON_parse = parse_sample
      and msg = "''ping ghost''" and r = "msg_of ''ping'' ghost" and n = "Str ''ghost''"
      and k = "''ghost''" and st = alice_and_bob and now = 4242 and cl = two_clients
      and isBinary = False, OF g1 g2 g3 g4 g5]
  note proto_ping = ping_unknown_records_time [where JSON_parse = parse_sample
      and msg = "''ping proto''" and r = "msg_of ''ping'' (Obj [(''name'', Str ''__proto__'')])"
      and n = "Str ''__proto__''" and k = "''__proto__''" and st = alice_and_bob and now = 4242
      and cl = two_clients and isBinary = False, OF p1 p2 p3 p4 p5]
  show ?thesis
    using g1 g3 g5 g6 p3 p5 ghost_ping proto_ping by blast
qed

text \<open>
  The claim C5 itself asks that \<open>lastActiveTimes\<close> is unchanged and that no error is
  raised. The name \<open>ghost\<close> is not in the table and has no entry; after its \<open>ping\<close> at time
  4242 it has one. The name \<open>{"toString":1}\<close> is not in the table either; its \<open>ping\<close>
  throws a TypeError.
\<close>

theorem ping_unknown_counterexample:
  "absent alice_and_bob (Str ''ghost'')
   \<and> lastActiveTimes alice_and_bob ''ghost'' = None
   \<and> lastActiveTimes
        (after (on_message parse_sample 4242 two_clients alice_and_bob ''ping ghost'' False))
        ''ghost'' = Some 4242
   \<and> absent alice_and_bob (Obj [(''toString'', Num ''1'')])
   \<and> on_message parse_sample 4242 two_clients alice_and_bob ''ping object'' False
       = Threw TypeError alice_and_bob []"
proof -
  have "absent alice_and_bob (Str ''ghost'')"
    by (simp add: absent_def alice_and_bob_def alice_def bob_def same_name_def strict_eq_def)
  moreover have "lastActiveTimes alice_and_bob ''ghost'' = None"
    by (simp add: alice_and_bob_def)
  moreover have "lastActiveTimes
        (after (on_message parse_sample 4242 two_clients alice_and_bob ''ping ghost'' False))
        ''ghost'' = Some 4242"
    by (simp add: on_message_def dispatch_def ping_branch_def parse_sample_def sample_frames_def
        msg_of_def user_name_def ghost_def put_def)
  moreover have "absent alice_and_bob (Obj [(''toString'', Num ''1'')])"
    by (simp add: absent_def alice_and_bob_def alice_def bob_def same_name_def strict_eq_def)
  moreover have "on_message parse_sample 4242 two_clients alice_and_bob ''ping object'' False
       = Threw TypeError alice_and_bob []"
    by (simp add: on_message_def dispatch_def ping_branch_def parse_sample_def sample_frames_def
        msg_of_def user_name_def)
  ultimately show ?thesis by blast
qed

text \<open>
  C6, as the code has it. Take a \<open>join\<close> for a name that an element of \<open>userState\<close> has,
  so that \<open>find\<close> returns an element. When that element is truthy, as every object is,
  the \<open>join\<close> changes nothing at all, the entry of \<open>lastActiveTimes\<close> included, and sends
  the list of users to every open client. When it is falsy (the empty string, 0 or
  \<open>false\<close>, whose name is \<open>undefined\<close>) the new user is pushed as if nothing had been
  found, the time is written under \<open>undefined\<close> and the longer list is sent.
\<close>

theorem join_present_changes_nothing:
  shows "(JSON_parse msg = Some r \<and> property ''type'' r = Some (Str ''join'')
          \<and> property ''user'' r = Some u \<and> property ''name'' u = Some n
          \<and> find_js (same_name n) (userState st) = Some (Some e) \<and> truthy e
          \<longrightarrow> on_message JSON_parse now cl st msg isBinary
                = Returned st (broadcast cl (UserList (userState st))))
       \<and> (JSON_parse msg' = Some r' \<and> property ''type'' r' = Some (Str ''join'')
          \<and> property ''user'' r' = Some u' \<and> property ''name'' u' = Some n'
          \<and> find_js (same_name n') (userState st') = Some (Some e') \<and> \<not> truthy e'
          \<longrightarrow> on_message JSON_parse now cl st' msg' isBinary
                = Returned
                    (st'\<lparr>userState := userState st' @ [u'],
                         lastActiveTimes := (lastActiveTimes st')(''undefined'' \<mapsto> now)\<rparr>)
                    (broadcast cl (UserList (userState st' @ [u']))))"
proof -
  have one: "on_message JSON_parse now cl st msg isBinary
                = Returned st (broadcast cl (UserList (userState st)))"
    if "JSON_parse msg = Some r" "property ''type'' r = Some (Str ''join'')"
      "property ''user'' r = Some u" "property ''name'' u = Some n"
      "find_js (same_name n) (userState st) = Some (Some e)" "truthy e"
    using that by (simp add: on_message_def dispatch_def join_branch_def)
  have two: "on_message JSON_parse now cl st' msg' isBinary
                = Returned
                    (st'\<lparr>userState := userState st' @ [u'],
                         lastActiveTimes := (lastActiveTimes st')(''undefined'' \<mapsto> now)\<rparr>)
                    (broadcast cl (UserList (userState st' @ [u'])))"
    if h: "JSON_parse msg' = Some r'" "property ''type'' r' = Some (Str ''join'')"
      "property ''user'' r' = Some u'" "property ''name'' u' = Some n'"
      "find_js (same_name n') (userState st') = Some (Some e')" "\<not> truthy e'"
  proof -
    have "property ''name'' e' = Some n'"
      using find_js_found [OF h(5)] same_name_true by blast
    then have "n' = Undefined" using h(6) falsy_name by blast
    then show ?thesis
      using h by (simp add: on_message_def dispatch_def join_branch_def put_def)
  qed
  from one two show ?thesis by blast
qed

theorem join_present_changes_nothing_witness:
  "parse_sample ''join alice'' = Some (msg_of ''join'' alice)
   \<and> find_js (same_name (Str ''alice'')) (userState alice_and_bob) = Some (Some alice)
   \<and> truthy alice
   \<and> on_message parse_sample 2000 two_clients alice_and_bob ''join alice'' False
       = Returned alice_and_bob [(1, UserList [alice, bob]), (2, UserList [alice, bob])]
   \<and> parse_sample ''join empty'' = Some (msg_of ''join'' (Str []))
   \<and> find_js (same_name Undefined) (userState empty_once) = Some (Some (Str []))
   \<and> \<not> truthy (Str [])
   \<and> userState (after (on_message parse_sample 2000 two_clients empty_once ''join empty'' False))
       = [Str [], Str []]
   \<and> lastActiveTimes
        (after (on_message parse_sample 2000 two_clients empty_once ''join empty'' False))
        ''undefined'' = Some 2000"
proof -
  have a1: "parse_sample ''join alice'' = Some (msg_of ''join'' alice)"
    by (simp add: parse_sample_def sample_frames_def)
  have a2: "property ''type'' (msg_of ''join'' alice) = Some (Str ''join'')"
    "property ''user'' (msg_of ''join'' alice) = Some alice"
    "property ''name'' alice = Some (Str ''alice'')"
    by (simp_all add: msg_of_def alice_def)
  have a3: "find_js (same_name (Str ''alice'')) (userState alice_and_bob) = Some (Some alice)"
    by (simp add: alice_and_bob_def alice_def same_name_def strict_eq_def)
  have a4: "truthy alice" by (simp add: alice_def)
  have a5: "broadcast two_clients (UserList (userState alice_and_bob))
          = [(1, UserList [alice, bob]), (2, UserList [alice, bob])]"
    by (simp add: broadcast_def two_clients_def alice_and_bob_def)
  have e0: "userState empty_once = [Str []]"
    by (simp add: empty_once_def on_message_def dispatch_def join_branch_def init_def
        parse_sample_def sample_frames_def msg_of_def put_def)
  have e1: "parse_sample ''join empty'' = Some (msg_of ''join'' (Str []))"
    by (simp add: parse_sample_def sample_frames_def)
  have e2: "property ''type'' (msg_of ''join'' (Str [])) = Some (Str ''join'')"
    "property ''user'' (msg_of ''join'' (Str [])) = Some (Str [])"
    "property ''name'' (Str []) = Some Undefined"
    by (simp_all add: msg_of_def)
  have e3: "find_js (same_name Undefined) (userState empty_once) = Some (Some (Str []))"
    by (simp add: e0 same_name_def strict_eq_def)
  have e4: "\<not> truthy (Str [])" by simp
  note both = join_present_changes_nothing [where JSON_parse = parse_sample
      and now = 2000 and cl = two_clients and isBinary = False
      and msg = "''join alice''" and r = "msg_of ''join'' alice" and u = alice
      and n = "Str ''alice''" and st = alice_and_bob and e = alice
      and msg' = "''join empty''" and r' = "msg_of ''join'' (Str [])" and u' = "Str []"
      and n' = Undefined and st' = empty_once and e' = "Str []"]
  have first: "on_message parse_sample 2000 two_clients alice_and_bob ''join alice'' False
       = Returned alice_and_bob [(1, UserList [alice, bob]), (2, UserList [alice, bob])]"
    using both a1 a2 a3 a4 a5 by simp
  have second: "on_message parse_sample 2000 two_clients empty_once ''join empty'' False
       = Returned
           (empty_once\<lparr>userState := userState empty_once @ [Str []],
              lastActiveTimes := (lastActiveTimes empty_once)(''undefined'' \<mapsto> 2000)\<rparr>)
           (broadcast two_clients (UserList (userState empty_once @ [Str []])))"
    using both e1 e2 e3 e4 by simp
  show ?thesis using a1 a3 a4 first e1 e3 e4 by (simp add: second e0)
qed

text \<open>
  The claim C6 itself asks that the time of the name is refreshed and that nothing is
  inserted. Alice was last seen at 1000; after her second \<open>join\<close> at 2000 her entry still
  says 1000. The user that is the empty string is in the table; its second \<open>join\<close>
  inserts it again.
\<close>

theorem join_present_counterexample:
  "find_js (same_name (Str ''alice'')) (userState alice_and_bob) = Some (Some alice)
   \<and> lastActiveTimes
        (after (on_message parse_sample 2000 two_clients alice_and_bob ''join alice'' False))
        ''alice'' = Some 1000
   \<and> userState empty_once = [Str []]
   \<and> find_js (same_name Undefined) (userState empty_once) = Some (Some (Str []))
   \<and> userState empty_twice = [Str [], Str []]"
proof -
  have e0: "userState empty_once = [Str []]"
    by (simp add: empty_once_def on_message_def dispatch_def join_branch_def init_def
        parse_sample_def sample_frames_def msg_of_def put_def)
  have "find_js (same_name (Str ''alice'')) (userState alice_and_bob) = Some (Some alice)"
    by (simp add: alice_and_bob_def alice_def same_name_def strict_eq_def)
  moreover have "lastActiveTimes
        (after (on_message parse_sample 2000 two_clients alice_and_bob ''join alice'' False))
        ''alice'' = Some 1000"
    by (simp add: on_message_def dispatch_def join_branch_def parse_sample_def sample_frames_def
        msg_of_def alice_and_bob_def alice_def bob_def same_name_def strict_eq_def)
  moreover have "find_js (same_name Undefined) (userState empty_once) = Some (Some (Str []))"
    by (simp add: e0 same_name_def strict_eq_def)
  moreover have "userState empty_twice = [Str [], Str []]"
    by (simp add: empty_twice_def on_message_def dispatch_def join_branch_def e0
        parse_sample_def sample_frames_def msg_of_def same_name_def strict_eq_def put_def)
  ultimately show ?thesis using e0 by blast
qed

text \<open>
  C8. A \<open>clear\<close> message empties the history and sends the frame
  \<open>{type: "history", data: []}\<close>, and nothing else, to every open client; \<open>userState\<close>
  and \<open>lastActiveTimes\<close> stay as they are.
\<close>

theorem clear_empties_history:
  assumes "JSON_parse msg = Some r" and "property ''type'' r = Some (Str ''clear'')"
  shows "on_message JSON_parse now cl st msg isBinary
           = Returned (st\<lparr>messageHistory := []\<rparr>) (broadcast cl (History []))
       \<and> messageHistory (after (on_message JSON_parse now cl st msg isBinary)) = []
       \<and> userState (after (on_message JSON_parse now cl st msg isBinary)) = userState st
       \<and> lastActiveTimes (after (on_message JSON_parse now cl st msg isBinary)) = lastActiveTimes st
       \<and> set (frames (on_message JSON_parse now cl st msg isBinary))
           = (\<lambda>c. (c, History [])) ` {c. (c, OPEN) \<in> set cl}"
  using assms
  by (simp add: on_message_def dispatch_def clear_branch_def set_broadcast)

theorem clear_empties_history_witness:
  "parse_sample ''clear'' = Some (Obj [(''type'', Str ''clear'')])
   \<and> messageHistory (after (on_message parse_sample 2000 two_clients
        (alice_and_bob\<lparr>messageHistory := [msg_of ''send'' alice]\<rparr>) ''clear'' False)) = []
   \<and> frames (on_message parse_sample 2000 two_clients
        (alice_and_bob\<lparr>messageHistory := [msg_of ''send'' alice]\<rparr>) ''clear'' False)
       = [(1, History []), (2, History [])]"
proof -
  have h1: "parse_sample ''clear'' = Some (Obj [(''type'', Str ''clear'')])"
    by (simp add: parse_sample_def sample_frames_def)
  have h2: "property ''type'' (Obj [(''type'', Str ''clear'')]) = Some (Str ''clear'')"
    by simp
  have "broadcast two_clients (History []) = [(1, History []), (2, History [])]"
    by (simp add: broadcast_def two_clients_def)
  then show ?thesis
    using h1
      clear_empties_history [where JSON_parse = parse_sample and msg = "''clear''"
        and r = "Obj [(''type'', Str ''clear'')]"
        and st = "alice_and_bob\<lparr>messageHistory := [msg_of ''send'' alice]\<rparr>"
        and now = 2000 and cl = two_clients and isBinary = False, OF h1 h2]
    by simp
qed



subsection \<open>Registration\<close>




subsection \<open>The timer passes over the element after a removed one\<close>

lemma forEach_spares_fresh:
  assumes "u \<in> set (userState st)" and "\<not> expired t st u"
  shows "u \<in> set (userState (after (forEach t cl i len st out)))"
  using assms
proof (induction t cl i len st out rule: forEach.induct)
  case (1 t cl i len st out)
  show ?case
  proof (cases "i < len")
    case False
    with "1.prems" show ?thesis by (simp add: forEach.simps [of t cl i len st out])
  next
    case in_range: True
    show ?thesis
    proof (cases "i < length (userState st)")
      case False
      then have "forEach t cl i len st out = forEach t cl (Suc i) len st out"
        using in_range by (subst forEach.simps) simp
      then show ?thesis using "1.IH"(3) [OF in_range False] "1.prems" by simp
    next
      case here: True
      show ?thesis
      proof (cases "entry_key (userState st ! i)")
        case None
        then have "forEach t cl i len st out = Threw TypeError st out"
          using in_range here by (subst forEach.simps) simp
        with "1.prems" show ?thesis by simp
      next
        case (Some k)
        show ?thesis
        proof (cases "stale t (lastActiveTimes st k)")
          case False
          then have "forEach t cl i len st out = forEach t cl (Suc i) len st out"
            using in_range here Some by (subst forEach.simps) simp
          then show ?thesis using "1.IH"(2) [OF in_range here Some False] "1.prems" by simp
        next
          case hit: True
          define st' where "st' = st\<lparr>userState := splice1 i (userState st),
                                       lastActiveTimes := (lastActiveTimes st)(k := None)\<rparr>"
          have "expired t st (userState st ! i)"
            using Some hit by (simp add: expired_def)
          then have "userState st ! i \<noteq> u" using "1.prems"(2) by auto
          then have "u \<in> set (userState st')"
            using "1.prems"(1) by (simp add: st'_def set_splice_keeps)
          moreover have "\<not> expired t st' u"
            using "1.prems"(2)
            by (auto simp: st'_def expired_def stale_def split: option.splits)
          ultimately have "u \<in> set (userState (after (forEach t cl (Suc i) len st'
                                   (out @ broadcastUserState cl st'))))"
            using "1.IH"(1) [OF in_range here Some hit st'_def] by simp
          moreover have "forEach t cl i len st out
                           = forEach t cl (Suc i) len st' (out @ broadcastUserState cl st')"
            using in_range here Some hit
            by (subst forEach.simps) (simp add: st'_def Let_def)
          ultimately show ?thesis by simp
        qed
      qed
    qed
  qed
qed

text \<open>Whoever is not older than the threshold when the callback starts is kept.\<close>

lemma sweep_spares_fresh:
  assumes "u \<in> set (userState st)" and "\<not> expired now st u"
  shows "u \<in> set (userState (after (sweep now cl st)))"
  unfolding sweep_def using assms by (rule forEach_spares_fresh)

text \<open>
  C2 fails on the code. Alice and bob were both last seen at time 1000. The timer
  callback at time 10000 finds both older than 5000 milliseconds, removes alice at index 0
  and then goes on to index 1, where nobody is any more: bob, now at index 0, is still in
  \<open>userState\<close> and still has his entry when the callback returns. One list was broadcast,
  for the one removal.
\<close>

theorem sweep_leaves_stale_user:
  "expired 10000 alice_and_bob alice
   \<and> expired 10000 alice_and_bob bob
   \<and> returned (sweep 10000 two_clients alice_and_bob)
   \<and> userState (after (sweep 10000 two_clients alice_and_bob)) = [bob]
   \<and> lastActiveTimes (after (sweep 10000 two_clients alice_and_bob)) ''bob'' = Some 1000
   \<and> frames (sweep 10000 two_clients alice_and_bob)
       = [(1, UserList [bob]), (2, UserList [bob])]"
  by (simp add: sweep_def forEach.simps expired_def stale_def entry_key_def splice1_def
      broadcastUserState_def alice_and_bob_def alice_def bob_def two_clients_def)

subsection \<open>No element of the table is bound to a socket\<close>

lemma property_Some: "property k v = Some w \<Longrightarrow> v \<noteq> Undefined \<and> v \<noteq> Null"
  by (cases v) simp_all

lemma property_readable: "v \<noteq> Undefined \<Longrightarrow> v \<noteq> Null \<Longrightarrow> \<exists>w. property k v = Some w"
  by (cases v) simp_all

lemma close_without_socket:
  assumes "readable_table st"
  shows "on_close c cl st = Returned st []"
proof -
  have "\<forall>user \<in> set (userState st).
          map_option (\<lambda>w. is_socket w c) (property ''ws'' user) = Some False"
  proof
    fix user assume "user \<in> set (userState st)"
    then have "user \<noteq> Undefined" "user \<noteq> Null"
      using assms by (auto simp: readable_table_def list_all_iff)
    then obtain w where "property ''ws'' user = Some w"
      using property_readable by blast
    then show "map_option (\<lambda>w. is_socket w c) (property ''ws'' user) = Some False"
      by (simp add: is_socket_def)
  qed
  then have "findIndex (\<lambda>user. map_option (\<lambda>w. is_socket w c) (property ''ws'' user))
               (userState st) = Some None"
    by (simp add: findIndex_missing)
  then show ?thesis by (simp add: on_close_def)
qed

lemma forEach_subset:
  "set (userState (after (forEach t cl i len st out))) \<subseteq> set (userState st)"
proof (induction t cl i len st out rule: forEach.induct)
  case (1 t cl i len st out)
  show ?case
  proof (cases "i < len")
    case False
    then show ?thesis by (simp add: forEach.simps [of t cl i len st out])
  next
    case in_range: True
    show ?thesis
    proof (cases "i < length (userState st)")
      case False
      then have "forEach t cl i len st out = forEach t cl (Suc i) len st out"
        using in_range by (subst forEach.simps) simp
      then show ?thesis using "1.IH"(3) [OF in_range False] by simp
    next
      case here: True
      show ?thesis
      proof (cases "entry_key (userState st ! i)")
        case None
        then have "forEach t cl i len st out = Threw TypeError st out"
          using in_range here by (subst forEach.simps) simp
        then show ?thesis by simp
      next
        case (Some k)
        show ?thesis
        proof (cases "stale t (lastActiveTimes st k)")
          case False
          then have "forEach t cl i len st out = forEach t cl (Suc i) len st out"
            using in_range here Some by (subst forEach.simps) simp
          then show ?thesis using "1.IH"(2) [OF in_range here Some False] by simp
        next
          case hit: True
          define st' where "st' = st\<lparr>userState := splice1 i (userState st),
                                       lastActiveTimes := (lastActiveTimes st)(k := None)\<rparr>"
          have "set (userState (after (forEach t cl (Suc i) len st'
                    (out @ broadcastUserState cl st')))) \<subseteq> set (userState st')"
            using "1.IH"(1) [OF in_range here Some hit st'_def] .
          moreover have "set (userState st') \<subseteq> set (userState st)"
            by (simp add: st'_def set_splice_subset)
          moreover have "forEach t cl i len st out
                           = forEach t cl (Suc i) len st' (out @ broadcastUserState cl st')"
            using in_range here Some hit
            by (subst forEach.simps) (simp add: st'_def Let_def)
          ultimately show ?thesis by simp
        qed
      qed
    qed
  qed
qed

lemma readable_subset:
  assumes "readable_table st" and "set (userState st') \<subseteq> set (userState st)"
  shows "readable_table st'"
  using assms by (auto simp: readable_table_def list_all_iff)

lemma readable_push:
  assumes "readable_table st" and "property k user = Some w"
  shows "readable_table (st\<lparr>userState := userState st @ [user]\<rparr>)"
  using assms property_Some [of k user w] by (simp add: readable_table_def)

lemma readable_join:
  assumes "readable_table st"
  shows "readable_table (after (join_branch now cl st r))"
proof (cases "property ''user'' r")
  case None
  with assms show ?thesis by (simp add: join_branch_def)
next
  case user: (Some user)
  show ?thesis
  proof (cases "property ''name'' user")
    case None
    with user assms show ?thesis by (simp add: join_branch_def)
  next
    case n: (Some n)
    show ?thesis
    proof (cases "find_js (same_name n) (userState st)")
      case None
      with user n assms show ?thesis by (simp add: join_branch_def)
    next
      case (Some isExist)
      have pushed: "readable_table (st\<lparr>userState := userState st @ [user]\<rparr>)"
        using assms n by (rule readable_push)
      then have "readable_table (st\<lparr>userState := userState st @ [user],
                      lastActiveTimes := m\<rparr>)" for m
        by (simp add: readable_table_def)
      with pushed user n Some assms show ?thesis
        by (cases "to_string n") (simp_all add: join_branch_def Let_def)
    qed
  qed
qed

lemma readable_exit:
  assumes "readable_table st"
  shows "readable_table (after (exit_branch cl st r))"
proof (cases "user_name r")
  case None
  with assms show ?thesis by (simp add: exit_branch_def)
next
  case n: (Some n)
  have fin: "readable_table (after (exit_finish cl n s))" if "readable_table s" for s
    using that by (cases "to_string n") (simp_all add: exit_finish_def)
  show ?thesis
  proof (cases "findIndex (same_name n) (userState st)")
    case None
    with n assms show ?thesis by (simp add: exit_branch_def)
  next
    case found: (Some found)
    show ?thesis
    proof (cases found)
      case None
      with n found fin [OF assms] show ?thesis by (simp add: exit_branch_def)
    next
      case (Some idx)
      have cut: "readable_table (st\<lparr>userState := splice1 idx (userState st)\<rparr>)"
        using assms by (rule readable_subset) (simp add: set_splice_subset)
      then have "readable_table (st\<lparr>userState := splice1 idx (userState st),
                      lastActiveTimes := m\<rparr>)" for m
        by (simp add: readable_table_def)
      with cut n found Some fin show ?thesis
        by (cases "to_string n") (simp_all add: exit_branch_def Let_def)
    qed
  qed
qed

lemma readable_dispatch:
  assumes "readable_table st"
  shows "readable_table (after (dispatch now cl st r msg isBinary))"
proof -
  have "readable_table (after (ping_branch now st r))"
    using assms by (simp add: ping_branch_def readable_table_def split: option.splits)
  moreover have "readable_table (after (send_branch cl st r msg isBinary))"
    using assms by (simp add: send_branch_def readable_table_def)
  moreover have "readable_table (after (clear_branch cl st))"
    using assms by (simp add: clear_branch_def readable_table_def)
  ultimately show ?thesis
    using assms readable_join [OF assms] readable_exit [OF assms]
    by (simp add: dispatch_def split: option.splits)
qed

lemma readable_step:
  assumes "readable_table st" and "fst (step JSON_parse st ev) = Running st'"
  shows "readable_table st'"
proof (cases ev)
  case (Register i body)
  show ?thesis
  proof (cases "new_user i body st")
    case (Inl e)
    with Register assms(2) show ?thesis by simp
  next
    case (Inr res)
    then have "userState (fst res) = userState st
        \<or> (\<exists>n. userState (fst res) = userState st @ [Obj [(''id'', Str i), (''name'', n)]])"
      by (auto simp: new_user_def Let_def split: option.splits if_splits)
    then have "readable_table (fst res)"
      using assms(1) by (auto simp: readable_table_def)
    with Register Inr assms(2) show ?thesis by (cases res) simp
  qed
next
  case (Connect c)
  with assms show ?thesis by simp
next
  case (Message now cl msg isBinary)
  show ?thesis
  proof (cases "JSON_parse msg")
    case None
    with Message assms(2) show ?thesis by (simp add: on_message_def)
  next
    case (Some r)
    have "readable_table (after (dispatch now cl st r msg isBinary))"
      using assms(1) by (rule readable_dispatch)
    moreover have "after (dispatch now cl st r msg isBinary) = st'"
      using Message Some assms(2) by (intro continue_running) (simp add: on_message_def)
    ultimately show ?thesis by simp
  qed
next
  case (Close c cl)
  have "on_close c cl st = Returned st []"
    using assms(1) by (rule close_without_socket)
  with Close assms show ?thesis by simp
next
  case (Tick now cl)
  have "readable_table (after (sweep now cl st))"
    using assms(1) unfolding sweep_def by (rule readable_subset) (rule forEach_subset)
  moreover have "after (sweep now cl st) = st'"
    using Tick assms(2) by (intro continue_running) simp
  ultimately show ?thesis by simp
qed

lemma readable_run:
  assumes "readable_table st" and "run JSON_parse (Running st) evs = Running st'"
  shows "readable_table st'"
  using assms
proof (induction evs arbitrary: st)
  case Nil
  then show ?case by simp
next
  case (Cons ev evs)
  show ?case
  proof (cases "fst (step JSON_parse st ev)")
    case (Running st1)
    then have "readable_table st1" using Cons.prems(1) readable_step by blast
    moreover have "run JSON_parse (Running st1) evs = Running st'"
      using Cons.prems(2) Running by simp
    ultimately show ?thesis using Cons.IH by blast
  next
    case (Crashed e)
    with Cons.prems(2) show ?thesis by (cases evs) simp_all
  qed
qed

text \<open>
  Whatever events the server has handled since it started, no element of \<open>userState\<close> is
  \<open>null\<close> or \<open>undefined\<close>, and its close listener finds no element to remove.
\<close>

lemma close_never_removes:
  assumes "run JSON_parse (Running init) evs = Running st"
  shows "readable_table st \<and> on_close c cl st = Returned st []"
proof -
  have "readable_table init" by (simp add: readable_table_def init_def)
  then have "readable_table st" using assms by (rule readable_run)
  then show ?thesis using close_without_socket by blast
qed

text \<open>
  C3 fails on the code. Alice joins over channel 1 of the empty server: the object pushed
  is the user of her message, which has no socket in it. When channel 1 closes, the close
  listener looks for an element whose \<open>ws\<close> is the socket of channel 1, finds none,
  removes nothing and sends nothing. An \<open>exit\<close> for alice in the same state empties the
  table, deletes her entry and sends the new list to the open client.
\<close>

theorem close_after_join_removes_nothing:
  "userState alice_joined = [alice]
   \<and> lastActiveTimes alice_joined ''alice'' = Some 1000
   \<and> on_close 1 one_closed alice_joined = Returned alice_joined []
   \<and> userState (after (on_message parse_sample 2000 one_closed alice_joined ''exit alice'' False))
       = []
   \<and> lastActiveTimes
        (after (on_message parse_sample 2000 one_closed alice_joined ''exit alice'' False))
        ''alice'' = None
   \<and> frames (on_message parse_sample 2000 one_closed alice_joined ''exit alice'' False)
       = [(2, UserList [])]"
proof -
  have u: "userState alice_joined = [alice]"
    by (simp add: alice_joined_def on_message_def dispatch_def join_branch_def init_def
        parse_sample_def sample_frames_def msg_of_def alice_def put_def)
  have t: "lastActiveTimes alice_joined ''alice'' = Some 1000"
    by (simp add: alice_joined_def on_message_def dispatch_def join_branch_def init_def
        parse_sample_def sample_frames_def msg_of_def alice_def put_def)
  have c: "on_close 1 one_closed alice_joined = Returned alice_joined []"
    by (rule close_without_socket) (simp add: readable_table_def u alice_def)
  have e: "on_message parse_sample 2000 one_closed alice_joined ''exit alice'' False
             = Returned (alice_joined\<lparr>userState := [],
                   lastActiveTimes := (lastActiveTimes alice_joined)(''alice'' := None)\<rparr>)
                 [(2, UserList [])]"
    by (simp add: on_message_def dispatch_def exit_branch_def exit_finish_def u
        parse_sample_def sample_frames_def msg_of_def user_name_def alice_def same_name_def
        strict_eq_def splice1_def broadcast_def one_closed_def)
  show ?thesis using u t c by (simp add: e)
qed

end
